theory Spec2Isabelle
  imports Complex_Main
begin

section \<open>Domain entities (src/domain/entities/SwipeAction.ts)\<close>

text \<open>
  \<^verbatim>\<open>SwipeActionType\<close> is a closed union of seven string literals; the haptic
  intensities are the three literals \<^verbatim>\<open>'Light' | 'Medium' | 'Heavy'\<close>.
\<close>

datatype SwipeActionType = Delete | Archive | Edit | Share | Favorite | More | Custom

datatype HapticsIntensity = Light | Medium | Heavy

text \<open>
  One entry of \<^verbatim>\<open>ACTION_PRESETS\<close>. Icon names and colour keys are string
  literals in the source and are kept as strings.
\<close>

record preset =
  label :: string
  icon :: string
  colorKey :: string
  hapticsIntensity :: HapticsIntensity

text \<open>
  The \<^verbatim>\<open>onPress\<close> slot as the validator sees it at run time: the property
  may be missing, may hold something that is not a function, or may hold a
  handler. Handlers are opaque; they are told apart by an identifier.
\<close>

datatype OnPress = Absent | NotAFunction | Handler nat

text \<open>
  \<^verbatim>\<open>SwipeActionConfig\<close>. An optional property is an \<open>option\<close>; \<open>None\<close> is
  the property left out (\<^verbatim>\<open>undefined\<close>).
\<close>

record SwipeActionConfig =
  type :: SwipeActionType
  label :: "string option"
  icon :: "string option"
  color :: "string option"
  onPress :: OnPress
  enableHaptics :: "bool option"

text \<open>
  JavaScript truthiness of an optional string, as tested by \<^verbatim>\<open>if (action.label)\<close>
  and by \<^verbatim>\<open>x || y\<close>: \<^verbatim>\<open>undefined\<close> and the empty string are falsy, every
  other string is truthy.
\<close>

fun truthy :: "string option \<Rightarrow> bool" where
  "truthy None = False"
| "truthy (Some s) = (s \<noteq> [])"

text \<open>The table \<^verbatim>\<open>ACTION_PRESETS\<close>; it has no key \<^verbatim>\<open>'custom'\<close>.\<close>

fun ACTION_PRESETS :: "SwipeActionType \<Rightarrow> preset option" where
  "ACTION_PRESETS Delete = Some \<lparr>preset.label = ''Delete'', icon = ''Trash2'',
     colorKey = ''error'', hapticsIntensity = Heavy\<rparr>"
| "ACTION_PRESETS Archive = Some \<lparr>preset.label = ''Archive'', icon = ''Archive'',
     colorKey = ''success'', hapticsIntensity = Medium\<rparr>"
| "ACTION_PRESETS Edit = Some \<lparr>preset.label = ''Edit'', icon = ''Pencil'',
     colorKey = ''primary'', hapticsIntensity = Light\<rparr>"
| "ACTION_PRESETS Share = Some \<lparr>preset.label = ''Share'', icon = ''Share2'',
     colorKey = ''secondary'', hapticsIntensity = Light\<rparr>"
| "ACTION_PRESETS Favorite = Some \<lparr>preset.label = ''Favorite'', icon = ''Heart'',
     colorKey = ''warning'', hapticsIntensity = Light\<rparr>"
| "ACTION_PRESETS More = Some \<lparr>preset.label = ''More'', icon = ''MoveHorizontal'',
     colorKey = ''textSecondary'', hapticsIntensity = Light\<rparr>"
| "ACTION_PRESETS Custom = None"

subsection \<open>SwipeActionUtils\<close>

definition getPreset :: "SwipeActionType \<Rightarrow> preset option" where
  "getPreset t = (if t = Custom then None else ACTION_PRESETS t)"

definition validateAction :: "SwipeActionConfig \<Rightarrow> bool" where
  "validateAction action =
     (case onPress action of
        Absent \<Rightarrow> False
      | NotAFunction \<Rightarrow> False
      | Handler h \<Rightarrow>
          (if type action = Custom
           then truthy (label action) \<and> truthy (icon action) \<and> truthy (color action)
           else True))"

text \<open>
  \<^verbatim>\<open>preset?.label || 'Action'\<close>: the fallback is taken when there is no preset
  or when the preset's value is falsy.
\<close>

definition getLabel :: "SwipeActionConfig \<Rightarrow> string" where
  "getLabel action =
     (case label action of
        Some l \<Rightarrow> if l \<noteq> [] then l
                  else (case getPreset (type action) of
                          None \<Rightarrow> ''Action''
                        | Some p \<Rightarrow> if preset.label p \<noteq> [] then preset.label p else ''Action'')
      | None \<Rightarrow> (case getPreset (type action) of
                   None \<Rightarrow> ''Action''
                 | Some p \<Rightarrow> if preset.label p \<noteq> [] then preset.label p else ''Action''))"

definition getIcon :: "SwipeActionConfig \<Rightarrow> string" where
  "getIcon action =
     (case icon action of
        Some i \<Rightarrow> if i \<noteq> [] then i
                  else (case getPreset (type action) of
                          None \<Rightarrow> ''MoveHorizontal''
                        | Some p \<Rightarrow> if preset.icon p \<noteq> [] then preset.icon p
                                    else ''MoveHorizontal'')
      | None \<Rightarrow> (case getPreset (type action) of
                   None \<Rightarrow> ''MoveHorizontal''
                 | Some p \<Rightarrow> if preset.icon p \<noteq> [] then preset.icon p
                             else ''MoveHorizontal''))"

text \<open>
  \<^verbatim>\<open>getColorKey\<close> returns \<^verbatim>\<open>null\<close> (\<open>None\<close>) when the descriptor's own
  colour is to be used, and also when there is neither a colour nor a preset.
\<close>

definition getColorKey :: "SwipeActionConfig \<Rightarrow> string option" where
  "getColorKey action =
     (if truthy (color action) then None
      else (case getPreset (type action) of
              None \<Rightarrow> None
            | Some p \<Rightarrow> if colorKey p \<noteq> [] then Some (colorKey p) else None))"

definition getHapticsIntensity :: "SwipeActionConfig \<Rightarrow> HapticsIntensity" where
  "getHapticsIntensity action =
     (case getPreset (type action) of
        None \<Rightarrow> Light
      | Some p \<Rightarrow> hapticsIntensity p)"

section \<open>Action button (presentation/components/SwipeActionButton.tsx)\<close>

text \<open>
  The design-system theme is not part of the repository; \<^verbatim>\<open>tokens.colors\<close> is
  taken as a parameter, a lookup from colour key to colour value, so that
  \<^verbatim>\<open>tokens.colors.primary\<close> is the lookup of \<open>''primary''\<close>.
\<close>

type_synonym Colors = "string \<Rightarrow> string"

datatype SwipeDirection = DLeft | DRight

text \<open>
  \<^verbatim>\<open>customColor || (colorKey ? tokens.colors[colorKey] : tokens.colors.primary)\<close>
\<close>

definition backgroundColor :: "Colors \<Rightarrow> SwipeActionConfig \<Rightarrow> string" where
  "backgroundColor colors action =
     (let themed = (case getColorKey action of
                      None \<Rightarrow> colors ''primary''
                    | Some k \<Rightarrow> if k \<noteq> [] then colors k else colors ''primary'')
      in case color action of
           None \<Rightarrow> themed
         | Some c \<Rightarrow> if c \<noteq> [] then c else themed)"

text \<open>
  What the component renders: a touchable surface with a background colour, an
  icon and a text. The repository holds two copies of the component; they
  compute label, background colour and the press handler in the same way, and
  the first copy, modelled here, passes the resolved icon name to the icon
  renderer unchanged.
\<close>

record ButtonView =
  viewBackgroundColor :: string
  viewIcon :: string
  viewText :: string

definition SwipeActionButton ::
  "Colors \<Rightarrow> SwipeActionConfig \<Rightarrow> nat \<Rightarrow> nat \<Rightarrow> SwipeDirection \<Rightarrow> ButtonView" where
  "SwipeActionButton colors action position totalActions direction =
     \<lparr>viewBackgroundColor = backgroundColor colors action,
      viewIcon = getIcon action,
      viewText = getLabel action\<rparr>"

subsection \<open>handlePress\<close>

text \<open>
  \<^verbatim>\<open>handlePress\<close> is an async function with two suspension points: the await
  of \<^verbatim>\<open>HapticService.impact\<close> and the await of \<^verbatim>\<open>action.onPress()\<close>. Each call
  of \<^verbatim>\<open>handlePress\<close> is an activation; a button holds the activations started
  so far, in the order of the presses, and the calls made to the two
  collaborators, each tagged with the index of the activation that made it.
  The environment decides when and how a pending promise settles.
\<close>

datatype Outcome = Resolved | Rejected

datatype Effect = Impact nat HapticsIntensity | Invoke nat nat

datatype Activation = AwaitImpact | AwaitOnPress | Fulfilled | Failed

datatype Event = Press | ImpactSettled nat Outcome | OnPressSettled nat Outcome

record Button =
  effects :: "Effect list"
  activations :: "Activation list"

definition init :: Button where
  "init = \<lparr>effects = [], activations = []\<rparr>"

text \<open>
  \<^verbatim>\<open>await action.onPress()\<close> by activation \<open>k\<close>: the handler is called and the
  activation waits for it; calling a slot that holds no function throws, which
  rejects the activation.
\<close>

fun callOnPress :: "nat \<Rightarrow> OnPress \<Rightarrow> Effect list \<times> Activation" where
  "callOnPress k (Handler h) = ([Invoke k h], AwaitOnPress)"
| "callOnPress k Absent = ([], Failed)"
| "callOnPress k NotAFunction = ([], Failed)"

definition impactCall :: "nat \<Rightarrow> SwipeActionConfig \<Rightarrow> Effect" where
  "impactCall k action =
     (let intensity = getHapticsIntensity action
      in if intensity = Light then Impact k Light
         else if intensity = Medium then Impact k Medium
         else Impact k Heavy)"

definition press :: "SwipeActionConfig \<Rightarrow> Button \<Rightarrow> Button" where
  "press action b =
     (let k = length (activations b)
      in if enableHaptics action \<noteq> Some False
         then \<lparr>effects = effects b @ [impactCall k action],
               activations = activations b @ [AwaitImpact]\<rparr>
         else (case callOnPress k (onPress action) of
                 (es, st) \<Rightarrow> \<lparr>effects = effects b @ es,
                               activations = activations b @ [st]\<rparr>))"

fun step :: "SwipeActionConfig \<Rightarrow> Event \<Rightarrow> Button \<Rightarrow> Button" where
  "step action Press b = press action b"
| "step action (ImpactSettled k r) b =
     (if k < length (activations b) \<and> activations b ! k = AwaitImpact
      then (case r of
              Rejected \<Rightarrow> b\<lparr>activations := (activations b)[k := Failed]\<rparr>
            | Resolved \<Rightarrow>
                (case callOnPress k (onPress action) of
                   (es, st) \<Rightarrow> \<lparr>effects = effects b @ es,
                                 activations = (activations b)[k := st]\<rparr>))
      else b)"
| "step action (OnPressSettled k r) b =
     (if k < length (activations b) \<and> activations b ! k = AwaitOnPress
      then b\<lparr>activations := (activations b)
                 [k := (case r of Resolved \<Rightarrow> Fulfilled | Rejected \<Rightarrow> Failed)]\<rparr>
      else b)"

fun run :: "SwipeActionConfig \<Rightarrow> Event list \<Rightarrow> Button \<Rightarrow> Button" where
  "run action [] b = b"
| "run action (e # es) b = run action es (step action e b)"

fun isInvoke :: "Effect \<Rightarrow> bool" where
  "isInvoke (Invoke k h) = True"
| "isInvoke (Impact k i) = False"

text \<open>The number of handler calls made so far, and of those not yet settled.\<close>

definition invocations :: "Button \<Rightarrow> nat" where
  "invocations b = length (filter isInvoke (effects b))"

definition inFlight :: "Button \<Rightarrow> nat" where
  "inFlight b = count_list (activations b) AwaitOnPress"



section \<open>Swipeable row (presentation/components/SwipeableItem.tsx)\<close>

record SwipeableConfig =
  leftActions :: "SwipeActionConfig list option"
  rightActions :: "SwipeActionConfig list option"
  threshold :: "real option"
  disableOvershoot :: "bool option"
  friction :: "real option"

record SwipeConfigDefaults =
  defaultThreshold :: real
  defaultDisableOvershoot :: bool
  defaultFriction :: real

definition DEFAULT_SWIPE_CONFIG :: SwipeConfigDefaults where
  "DEFAULT_SWIPE_CONFIG =
     \<lparr>defaultThreshold = 80, defaultDisableOvershoot = True, defaultFriction = 2\<rparr>"

text \<open>
  A render callback receives the two animated values of the gesture (it ignores
  both) and returns the container of buttons, or \<^verbatim>\<open>null\<close>.
\<close>

type_synonym RenderActions = "real \<Rightarrow> real \<Rightarrow> ButtonView list option"

fun buttons ::
  "Colors \<Rightarrow> SwipeDirection \<Rightarrow> nat \<Rightarrow> nat \<Rightarrow> SwipeActionConfig list \<Rightarrow> ButtonView list" where
  "buttons colors direction totalActions index [] = []"
| "buttons colors direction totalActions index (action # rest) =
     SwipeActionButton colors action index totalActions direction
       # buttons colors direction totalActions (Suc index) rest"

definition renderLeftActions :: "Colors \<Rightarrow> SwipeActionConfig list \<Rightarrow> RenderActions" where
  "renderLeftActions colors actions progress drag =
     (if length actions = 0 then None
      else Some (buttons colors DLeft (length actions) 0 actions))"

definition renderRightActions :: "Colors \<Rightarrow> SwipeActionConfig list \<Rightarrow> RenderActions" where
  "renderRightActions colors actions progress drag =
     (if length actions = 0 then None
      else Some (buttons colors DRight (length actions) 0 actions))"

text \<open>The props handed to the gesture component.\<close>

record SwipeableProps =
  propFriction :: real
  overshootLeft :: bool
  overshootRight :: bool
  leftThreshold :: real
  rightThreshold :: real
  propRenderLeftActions :: "RenderActions option"
  propRenderRightActions :: "RenderActions option"

definition SwipeableItem :: "Colors \<Rightarrow> SwipeableConfig \<Rightarrow> SwipeableProps" where
  "SwipeableItem colors props =
     (let leftActions = (case leftActions props of None \<Rightarrow> [] | Some l \<Rightarrow> l);
          rightActions = (case rightActions props of None \<Rightarrow> [] | Some r \<Rightarrow> r);
          threshold = (case threshold props of
                         None \<Rightarrow> defaultThreshold DEFAULT_SWIPE_CONFIG | Some t \<Rightarrow> t);
          disableOvershoot = (case disableOvershoot props of
                         None \<Rightarrow> defaultDisableOvershoot DEFAULT_SWIPE_CONFIG | Some d \<Rightarrow> d);
          friction = (case friction props of
                         None \<Rightarrow> defaultFriction DEFAULT_SWIPE_CONFIG | Some f \<Rightarrow> f)
      in \<lparr>propFriction = friction,
          overshootLeft = \<not> disableOvershoot,
          overshootRight = \<not> disableOvershoot,
          leftThreshold = threshold,
          rightThreshold = threshold,
          propRenderLeftActions =
            (if length leftActions > 0 then Some (renderLeftActions colors leftActions)
             else None),
          propRenderRightActions =
            (if length rightActions > 0 then Some (renderRightActions colors rightActions)
             else None)\<rparr>)"



subsection \<open>Row state\<close>

text \<open>
  The repository keeps no open/closed state for a row: the state belongs to the
  gesture component the row hands its props to, which is an external
  dependency. What reaches a row is a released drag on a side, with its
  distance, or a request to close. Whether a drag commits is decided by the
  gesture collaborator, a parameter that sees the props, the side and the
  distance.
\<close>

datatype GestureEvent = Drag SwipeDirection real | CloseRow

type_synonym Gesture = "SwipeableProps \<Rightarrow> SwipeDirection \<Rightarrow> real \<Rightarrow> bool"

text \<open>
  Modelled from the spec: the transitions of the row state, which the external
  gesture component owns and the repository does not contain. The state is the
  open side, if any. A drag on a side opens that side when the collaborator
  commits it and has no effect otherwise; a close request returns the row to
  closed. A committed drag is allowed from every state, which also covers a
  snap from one open side to the other.
\<close>

fun rowStep ::
  "Gesture \<Rightarrow> SwipeableProps \<Rightarrow> GestureEvent \<Rightarrow> SwipeDirection option
     \<Rightarrow> SwipeDirection option" where
  "rowStep commits p (Drag side distance) openSide =
     (if commits p side distance then Some side else openSide)"
| "rowStep commits p CloseRow openSide = None"

fun rowRun ::
  "Gesture \<Rightarrow> SwipeableProps \<Rightarrow> GestureEvent list \<Rightarrow> SwipeDirection option
     \<Rightarrow> SwipeDirection option" where
  "rowRun commits p [] openSide = openSide"
| "rowRun commits p (e # es) openSide = rowRun commits p es (rowStep commits p e openSide)"


section \<open>Sample inputs\<close>

text \<open>A theme that names each colour after its key.\<close>

definition sampleColors :: Colors where
  "sampleColors key = ''theme.'' @ key"

section \<open>Resolution of the visual attributes\<close>

lemma getPreset_Custom: "getPreset Custom = None"
  by (simp add: getPreset_def)

lemma getPreset_preset:
  "t \<noteq> Custom \<Longrightarrow> \<exists>p. ACTION_PRESETS t = Some p \<and> getPreset t = Some p"
  by (cases t) (simp_all add: getPreset_def)

lemma preset_values_truthy:
  "ACTION_PRESETS t = Some p \<Longrightarrow>
     preset.label p \<noteq> [] \<and> preset.icon p \<noteq> [] \<and> colorKey p \<noteq> []"
  by (cases t) auto

lemma getLabel_explicit: "truthy (label a) \<Longrightarrow> label a = Some (getLabel a)"
  by (cases "label a") (simp_all add: getLabel_def)

lemma getLabel_preset:
  assumes "\<not> truthy (label a)" and "type a \<noteq> Custom"
  shows "\<exists>p. ACTION_PRESETS (type a) = Some p \<and> getLabel a = preset.label p"
proof -
  from assms(2) obtain p where p: "ACTION_PRESETS (type a) = Some p" "getPreset (type a) = Some p"
    using getPreset_preset by blast
  from p(1) have "preset.label p \<noteq> []" using preset_values_truthy by blast
  with assms(1) p show ?thesis
    by (cases "label a") (simp_all add: getLabel_def)
qed

lemma getLabel_fallback:
  "\<not> truthy (label a) \<Longrightarrow> type a = Custom \<Longrightarrow> getLabel a = ''Action''"
  by (cases "label a") (simp_all add: getLabel_def getPreset_Custom)

lemma getIcon_explicit: "truthy (icon a) \<Longrightarrow> icon a = Some (getIcon a)"
  by (cases "icon a") (simp_all add: getIcon_def)

lemma getIcon_preset:
  assumes "\<not> truthy (icon a)" and "type a \<noteq> Custom"
  shows "\<exists>p. ACTION_PRESETS (type a) = Some p \<and> getIcon a = preset.icon p"
proof -
  from assms(2) obtain p where p: "ACTION_PRESETS (type a) = Some p" "getPreset (type a) = Some p"
    using getPreset_preset by blast
  from p(1) have "preset.icon p \<noteq> []" using preset_values_truthy by blast
  with assms(1) p show ?thesis
    by (cases "icon a") (simp_all add: getIcon_def)
qed

lemma getIcon_fallback:
  "\<not> truthy (icon a) \<Longrightarrow> type a = Custom \<Longrightarrow> getIcon a = ''MoveHorizontal''"
  by (cases "icon a") (simp_all add: getIcon_def getPreset_Custom)

lemma color_explicit:
  "truthy (color a) \<Longrightarrow> getColorKey a = None \<and> color a = Some (backgroundColor colors a)"
  by (cases "color a") (simp_all add: getColorKey_def backgroundColor_def)

lemma color_preset:
  assumes "\<not> truthy (color a)" and "type a \<noteq> Custom"
  shows "\<exists>p. ACTION_PRESETS (type a) = Some p \<and> getColorKey a = Some (colorKey p)
           \<and> backgroundColor colors a = colors (colorKey p)"
proof -
  from assms(2) obtain p where p: "ACTION_PRESETS (type a) = Some p" "getPreset (type a) = Some p"
    using getPreset_preset by blast
  from p(1) have "colorKey p \<noteq> []" using preset_values_truthy by blast
  with assms(1) p show ?thesis
    by (cases "color a") (simp_all add: getColorKey_def backgroundColor_def)
qed

lemma color_absent_custom:
  "\<not> truthy (color a) \<Longrightarrow> type a = Custom \<Longrightarrow>
     getColorKey a = None \<and> backgroundColor colors a = colors ''primary''"
  by (cases "color a") (simp_all add: getColorKey_def backgroundColor_def getPreset_Custom)

lemma haptics_preset:
  "type a \<noteq> Custom \<Longrightarrow>
     \<exists>p. ACTION_PRESETS (type a) = Some p \<and> getHapticsIntensity a = hapticsIntensity p"
  using getPreset_preset [of "type a"] by (auto simp: getHapticsIntensity_def)

lemma haptics_custom: "type a = Custom \<Longrightarrow> getHapticsIntensity a = Light"
  by (simp add: getHapticsIntensity_def getPreset_Custom)

text \<open>
  Claim C1, as the code has it. For each of label, icon and colour the resolver
  takes the explicit value when it is present and not the empty string, else
  the preset value of the descriptor's type when the type is not custom, else
  the hard-coded fallback (label "Action", the generic icon "MoveHorizontal"; a
  colour key of null). An override that is present but empty resolves as if it
  were absent. Each attribute is resolved from its own field and the type only.
  In particular a delete descriptor whose only override is a non-empty colour
  resolves to the preset label, icon and haptic intensity, with a null colour
  key and the caller's colour as background.
\<close>

theorem resolution_precedence:
  "(truthy (label a) \<longrightarrow> label a = Some (getLabel a)) \<and>
   (\<not> truthy (label a) \<and> type a \<noteq> Custom \<longrightarrow>
      (\<exists>p. ACTION_PRESETS (type a) = Some p \<and> getLabel a = preset.label p)) \<and>
   (\<not> truthy (label a) \<and> type a = Custom \<longrightarrow> getLabel a = ''Action'') \<and>
   (truthy (icon a) \<longrightarrow> icon a = Some (getIcon a)) \<and>
   (\<not> truthy (icon a) \<and> type a \<noteq> Custom \<longrightarrow>
      (\<exists>p. ACTION_PRESETS (type a) = Some p \<and> getIcon a = preset.icon p)) \<and>
   (\<not> truthy (icon a) \<and> type a = Custom \<longrightarrow> getIcon a = ''MoveHorizontal'') \<and>
   (truthy (color a) \<longrightarrow>
      getColorKey a = None \<and> color a = Some (backgroundColor colors a)) \<and>
   (\<not> truthy (color a) \<and> type a \<noteq> Custom \<longrightarrow>
      (\<exists>p. ACTION_PRESETS (type a) = Some p \<and> getColorKey a = Some (colorKey p)
         \<and> backgroundColor colors a = colors (colorKey p))) \<and>
   (\<not> truthy (color a) \<and> type a = Custom \<longrightarrow> getColorKey a = None) \<and>
   getLabel (a\<lparr>icon := i, color := c\<rparr>) = getLabel a \<and>
   getIcon (a\<lparr>label := l, color := c\<rparr>) = getIcon a \<and>
   getColorKey (a\<lparr>label := l, icon := i\<rparr>) = getColorKey a \<and>
   getLabel (a\<lparr>label := Some []\<rparr>) = getLabel (a\<lparr>label := None\<rparr>) \<and>
   getIcon (a\<lparr>icon := Some []\<rparr>) = getIcon (a\<lparr>icon := None\<rparr>) \<and>
   getColorKey (a\<lparr>color := Some []\<rparr>) = getColorKey (a\<lparr>color := None\<rparr>) \<and>
   backgroundColor colors (a\<lparr>color := Some []\<rparr>)
     = backgroundColor colors (a\<lparr>color := None\<rparr>) \<and>
   (truthy (Some k) \<longrightarrow>
      getLabel \<lparr>type = Delete, label = None, icon = None, color = Some k,
                 onPress = h, enableHaptics = e\<rparr> = ''Delete'' \<and>
      getIcon \<lparr>type = Delete, label = None, icon = None, color = Some k,
                onPress = h, enableHaptics = e\<rparr> = ''Trash2'' \<and>
      getHapticsIntensity \<lparr>type = Delete, label = None, icon = None, color = Some k,
                onPress = h, enableHaptics = e\<rparr> = Heavy \<and>
      getColorKey \<lparr>type = Delete, label = None, icon = None, color = Some k,
                onPress = h, enableHaptics = e\<rparr> = None \<and>
      backgroundColor colors \<lparr>type = Delete, label = None, icon = None, color = Some k,
                onPress = h, enableHaptics = e\<rparr> = k)"
proof -
  have independent:
    "getLabel (a\<lparr>icon := i, color := c\<rparr>) = getLabel a"
    "getIcon (a\<lparr>label := l, color := c\<rparr>) = getIcon a"
    "getColorKey (a\<lparr>label := l, icon := i\<rparr>) = getColorKey a"
    by (simp_all add: getLabel_def getIcon_def getColorKey_def split: option.splits)
  have empty:
    "getLabel (a\<lparr>label := Some []\<rparr>) = getLabel (a\<lparr>label := None\<rparr>)"
    "getIcon (a\<lparr>icon := Some []\<rparr>) = getIcon (a\<lparr>icon := None\<rparr>)"
    "getColorKey (a\<lparr>color := Some []\<rparr>) = getColorKey (a\<lparr>color := None\<rparr>)"
    "backgroundColor colors (a\<lparr>color := Some []\<rparr>)
       = backgroundColor colors (a\<lparr>color := None\<rparr>)"
    by (simp_all add: getLabel_def getIcon_def getColorKey_def backgroundColor_def)
  have delete: "truthy (Some k) \<longrightarrow>
      getLabel \<lparr>type = Delete, label = None, icon = None, color = Some k,
                 onPress = h, enableHaptics = e\<rparr> = ''Delete'' \<and>
      getIcon \<lparr>type = Delete, label = None, icon = None, color = Some k,
                onPress = h, enableHaptics = e\<rparr> = ''Trash2'' \<and>
      getHapticsIntensity \<lparr>type = Delete, label = None, icon = None, color = Some k,
                onPress = h, enableHaptics = e\<rparr> = Heavy \<and>
      getColorKey \<lparr>type = Delete, label = None, icon = None, color = Some k,
                onPress = h, enableHaptics = e\<rparr> = None \<and>
      backgroundColor colors \<lparr>type = Delete, label = None, icon = None, color = Some k,
                onPress = h, enableHaptics = e\<rparr> = k"
    by (simp add: getLabel_def getIcon_def getHapticsIntensity_def getColorKey_def
        backgroundColor_def getPreset_def)
  show ?thesis
    using getLabel_explicit [of a] getLabel_preset [of a] getLabel_fallback [of a]
      getIcon_explicit [of a] getIcon_preset [of a] getIcon_fallback [of a]
      color_explicit [of a colors] color_preset [of a colors] color_absent_custom [of a colors]
      independent empty delete
    by blast
qed

theorem resolution_precedence_witness:
  "getLabel \<lparr>type = Archive, label = Some ''Keep'', icon = None, color = Some [],
              onPress = Handler 0, enableHaptics = None\<rparr> = ''Keep'' \<and>
   getIcon \<lparr>type = Archive, label = Some ''Keep'', icon = None, color = Some [],
             onPress = Handler 0, enableHaptics = None\<rparr> = ''Archive'' \<and>
   getColorKey \<lparr>type = Archive, label = Some ''Keep'', icon = None, color = Some [],
                 onPress = Handler 0, enableHaptics = None\<rparr> = Some ''success'' \<and>
   backgroundColor sampleColors \<lparr>type = Delete, label = None, icon = None,
                 color = Some ''#00FF00'', onPress = Handler 0, enableHaptics = None\<rparr>
     = ''#00FF00''"
  using resolution_precedence
    [of "\<lparr>type = Archive, label = Some ''Keep'', icon = None, color = Some [],
          onPress = Handler 0, enableHaptics = None\<rparr>" sampleColors None None None
        "''#00FF00''" "Handler 0" None]
  by simp

text \<open>
  Claim C1 as stated fails: a delete descriptor whose label, icon and colour
  are present but empty. The explicit values do not win: the resolver returns
  the preset label, icon and colour key.
\<close>

theorem empty_override_counterexample:
  "getLabel \<lparr>type = Delete, label = Some [], icon = Some [], color = Some [],
              onPress = Handler 0, enableHaptics = None\<rparr> = ''Delete'' \<and>
   getIcon \<lparr>type = Delete, label = Some [], icon = Some [], color = Some [],
             onPress = Handler 0, enableHaptics = None\<rparr> = ''Trash2'' \<and>
   getColorKey \<lparr>type = Delete, label = Some [], icon = Some [], color = Some [],
                 onPress = Handler 0, enableHaptics = None\<rparr> = Some ''error''"
  by (simp add: getLabel_def getIcon_def getColorKey_def getPreset_def)

text \<open>
  Claim C7. A delete descriptor with no overrides resolves to the label
  "Delete", the icon "Trash2", the colour key "error" and the intensity Heavy.
  The custom descriptor with label "Block", icon "ban", colour "#FF0000" and a
  handler resolves to exactly that label, icon and colour (the colour key is
  null and the colour itself is the background) and keeps its handler; no
  preset exists for its type, and its haptic intensity, for which a descriptor
  has no field, is Light.
\<close>

theorem scenario_delete_and_custom:
  "getLabel \<lparr>type = Delete, label = None, icon = None, color = None,
              onPress = Handler h, enableHaptics = e\<rparr> = ''Delete'' \<and>
   getIcon \<lparr>type = Delete, label = None, icon = None, color = None,
             onPress = Handler h, enableHaptics = e\<rparr> = ''Trash2'' \<and>
   getColorKey \<lparr>type = Delete, label = None, icon = None, color = None,
                 onPress = Handler h, enableHaptics = e\<rparr> = Some ''error'' \<and>
   getHapticsIntensity \<lparr>type = Delete, label = None, icon = None, color = None,
                         onPress = Handler h, enableHaptics = e\<rparr> = Heavy \<and>
   getLabel \<lparr>type = Custom, label = Some ''Block'', icon = Some ''ban'',
              color = Some ''#FF0000'', onPress = Handler h, enableHaptics = e\<rparr> = ''Block'' \<and>
   getIcon \<lparr>type = Custom, label = Some ''Block'', icon = Some ''ban'',
             color = Some ''#FF0000'', onPress = Handler h, enableHaptics = e\<rparr> = ''ban'' \<and>
   getColorKey \<lparr>type = Custom, label = Some ''Block'', icon = Some ''ban'',
                 color = Some ''#FF0000'', onPress = Handler h, enableHaptics = e\<rparr> = None \<and>
   backgroundColor colors \<lparr>type = Custom, label = Some ''Block'', icon = Some ''ban'',
                 color = Some ''#FF0000'', onPress = Handler h, enableHaptics = e\<rparr>
     = ''#FF0000'' \<and>
   getHapticsIntensity \<lparr>type = Custom, label = Some ''Block'', icon = Some ''ban'',
                 color = Some ''#FF0000'', onPress = Handler h, enableHaptics = e\<rparr> = Light \<and>
   getPreset Custom = None \<and>
   validateAction \<lparr>type = Custom, label = Some ''Block'', icon = Some ''ban'',
                 color = Some ''#FF0000'', onPress = Handler h, enableHaptics = e\<rparr>"
  by (simp add: getLabel_def getIcon_def getColorKey_def getHapticsIntensity_def
      backgroundColor_def getPreset_def validateAction_def)

text \<open>
  Claim C10. The resolved haptic intensity is a function of the descriptor's
  type alone: the preset's intensity for every type other than custom, and Light
  for custom. No field of the descriptor can override it, so a custom action
  never resolves to Heavy.
\<close>

theorem haptics_depend_on_type_only:
  "(type a \<noteq> Custom \<longrightarrow>
      (\<exists>p. ACTION_PRESETS (type a) = Some p \<and> getHapticsIntensity a = hapticsIntensity p)) \<and>
   (type a = Custom \<longrightarrow> getHapticsIntensity a = Light \<and> getHapticsIntensity a \<noteq> Heavy) \<and>
   (type a = type b \<longrightarrow> getHapticsIntensity a = getHapticsIntensity b) \<and>
   getHapticsIntensity (a\<lparr>label := l, icon := i, color := c, onPress := f,
                          enableHaptics := e\<rparr>) = getHapticsIntensity a"
  using haptics_preset [of a] haptics_custom [of a]
  by (auto simp: getHapticsIntensity_def)

theorem haptics_depend_on_type_only_witness:
  "getHapticsIntensity \<lparr>type = Archive, label = Some ''Keep'', icon = None, color = None,
        onPress = Handler 0, enableHaptics = None\<rparr> = Medium \<and>
   getHapticsIntensity \<lparr>type = Custom, label = Some ''Block'', icon = Some ''ban'',
        color = Some ''#FF0000'', onPress = Handler 1, enableHaptics = Some True\<rparr> = Light \<and>
   getHapticsIntensity \<lparr>type = Custom, label = Some ''Block'', icon = Some ''ban'',
        color = Some ''#FF0000'', onPress = Handler 1, enableHaptics = Some True\<rparr>
     = getHapticsIntensity \<lparr>type = Custom, label = None, icon = None, color = None,
        onPress = Absent, enableHaptics = None\<rparr>"
  using haptics_depend_on_type_only
    [where a = "\<lparr>type = Archive, label = Some ''Keep'', icon = None, color = None,
          onPress = Handler 0, enableHaptics = None\<rparr>"
       and b = "\<lparr>type = Archive, label = None, icon = None, color = None,
          onPress = Absent, enableHaptics = None\<rparr>"
       and l = None and i = None and c = None and f = Absent and e = None]
    haptics_depend_on_type_only
    [where a = "\<lparr>type = Custom, label = Some ''Block'', icon = Some ''ban'',
          color = Some ''#FF0000'', onPress = Handler 1, enableHaptics = Some True\<rparr>"
       and b = "\<lparr>type = Custom, label = None, icon = None, color = None,
          onPress = Absent, enableHaptics = None\<rparr>"
       and l = None and i = None and c = None and f = Absent and e = None]
  by simp

section \<open>Validation\<close>

text \<open>
  Claim C3. For every descriptor, \<open>validateAction\<close> is true exactly when the
  descriptor has a handler that is a function and either its type is not custom
  or its label, icon and colour are all present and non-empty. Equivalently it
  is false exactly when the handler is absent (or not a function), or the type
  is custom and one of the three is empty or absent.
\<close>

theorem validateAction_iff:
  "(validateAction d =
     ((\<exists>h. onPress d = Handler h) \<and>
      (type d \<noteq> Custom \<or> (truthy (label d) \<and> truthy (icon d) \<and> truthy (color d))))) \<and>
   ((\<not> validateAction d) =
     ((\<forall>h. onPress d \<noteq> Handler h) \<or>
      (type d = Custom \<and> (\<not> truthy (label d) \<or> \<not> truthy (icon d) \<or> \<not> truthy (color d)))))"
  by (auto simp: validateAction_def split: OnPress.splits)

theorem validateAction_iff_witness:
  "validateAction \<lparr>type = Custom, label = Some ''Block'', icon = Some ''ban'',
        color = Some ''#FF0000'', onPress = Handler 0, enableHaptics = None\<rparr> \<and>
   \<not> validateAction \<lparr>type = Custom, label = Some ''Block'', icon = Some [],
        color = Some ''#FF0000'', onPress = Handler 0, enableHaptics = None\<rparr> \<and>
   \<not> validateAction \<lparr>type = Delete, label = None, icon = None,
        color = None, onPress = Absent, enableHaptics = None\<rparr>"
  using validateAction_iff
    [of "\<lparr>type = Custom, label = Some ''Block'', icon = Some ''ban'',
        color = Some ''#FF0000'', onPress = Handler 0, enableHaptics = None\<rparr>"]
    validateAction_iff
    [of "\<lparr>type = Custom, label = Some ''Block'', icon = Some [],
        color = Some ''#FF0000'', onPress = Handler 0, enableHaptics = None\<rparr>"]
    validateAction_iff
    [of "\<lparr>type = Delete, label = None, icon = None,
        color = None, onPress = Absent, enableHaptics = None\<rparr>"]
  by simp

section \<open>Activation of an action button\<close>

lemma impactCall_eq: "impactCall k a = Impact k (getHapticsIntensity a)"
  by (cases "getHapticsIntensity a") (simp_all add: impactCall_def)

lemma press_haptics:
  "enableHaptics a \<noteq> Some False \<Longrightarrow>
     press a b = \<lparr>effects = effects b @ [Impact (length (activations b)) (getHapticsIntensity a)],
                  activations = activations b @ [AwaitImpact]\<rparr>"
  by (simp add: press_def impactCall_eq)

lemma press_no_haptics:
  "enableHaptics a = Some False \<Longrightarrow> onPress a = Handler h \<Longrightarrow>
     press a b = \<lparr>effects = effects b @ [Invoke (length (activations b)) h],
                  activations = activations b @ [AwaitOnPress]\<rparr>"
  by (simp add: press_def)

lemma validateAction_handler: "validateAction a \<Longrightarrow> \<exists>h. onPress a = Handler h"
  by (cases "onPress a") (simp_all add: validateAction_def)

text \<open>
  Claim C6. For a valid action and an activation that succeeds: when
  \<open>enableHaptics\<close> is not explicitly false, the press issues exactly one haptic
  request, at the resolved intensity, and nothing else; the handler is called,
  once, only when that request has resolved; when \<open>enableHaptics\<close> is false the
  press issues no haptic request and calls the handler once. The button may
  hold earlier activations; the new one is the activation numbered
  \<open>length (activations b)\<close>.
\<close>

theorem activation_sequence:
  assumes "validateAction a"
  shows "\<exists>h. onPress a = Handler h \<and>
    (enableHaptics a \<noteq> Some False \<longrightarrow>
       run a [Press] b =
         \<lparr>effects = effects b @ [Impact (length (activations b)) (getHapticsIntensity a)],
          activations = activations b @ [AwaitImpact]\<rparr> \<and>
       run a [Press, ImpactSettled (length (activations b)) Resolved] b =
         \<lparr>effects = effects b @ [Impact (length (activations b)) (getHapticsIntensity a),
                                  Invoke (length (activations b)) h],
          activations = activations b @ [AwaitOnPress]\<rparr> \<and>
       run a [Press, ImpactSettled (length (activations b)) Resolved,
              OnPressSettled (length (activations b)) Resolved] b =
         \<lparr>effects = effects b @ [Impact (length (activations b)) (getHapticsIntensity a),
                                  Invoke (length (activations b)) h],
          activations = activations b @ [Fulfilled]\<rparr>) \<and>
    (enableHaptics a = Some False \<longrightarrow>
       run a [Press] b =
         \<lparr>effects = effects b @ [Invoke (length (activations b)) h],
          activations = activations b @ [AwaitOnPress]\<rparr> \<and>
       run a [Press, OnPressSettled (length (activations b)) Resolved] b =
         \<lparr>effects = effects b @ [Invoke (length (activations b)) h],
          activations = activations b @ [Fulfilled]\<rparr>)"
proof -
  from assms obtain h where h: "onPress a = Handler h"
    using validateAction_handler by blast
  have on: "enableHaptics a \<noteq> Some False \<longrightarrow>
       run a [Press] b =
         \<lparr>effects = effects b @ [Impact (length (activations b)) (getHapticsIntensity a)],
          activations = activations b @ [AwaitImpact]\<rparr> \<and>
       run a [Press, ImpactSettled (length (activations b)) Resolved] b =
         \<lparr>effects = effects b @ [Impact (length (activations b)) (getHapticsIntensity a),
                                  Invoke (length (activations b)) h],
          activations = activations b @ [AwaitOnPress]\<rparr> \<and>
       run a [Press, ImpactSettled (length (activations b)) Resolved,
              OnPressSettled (length (activations b)) Resolved] b =
         \<lparr>effects = effects b @ [Impact (length (activations b)) (getHapticsIntensity a),
                                  Invoke (length (activations b)) h],
          activations = activations b @ [Fulfilled]\<rparr>"
    by (simp add: press_haptics h)
  have off: "enableHaptics a = Some False \<longrightarrow>
       run a [Press] b =
         \<lparr>effects = effects b @ [Invoke (length (activations b)) h],
          activations = activations b @ [AwaitOnPress]\<rparr> \<and>
       run a [Press, OnPressSettled (length (activations b)) Resolved] b =
         \<lparr>effects = effects b @ [Invoke (length (activations b)) h],
          activations = activations b @ [Fulfilled]\<rparr>"
    by (simp add: press_no_haptics h)
  from h on off show ?thesis by blast
qed

theorem activation_sequence_witness:
  "validateAction \<lparr>type = Archive, label = None, icon = None, color = None,
        onPress = Handler 7, enableHaptics = None\<rparr> \<and>
   run \<lparr>type = Archive, label = None, icon = None, color = None,
        onPress = Handler 7, enableHaptics = None\<rparr>
     [Press, ImpactSettled 0 Resolved, OnPressSettled 0 Resolved] init
     = \<lparr>effects = [Impact 0 Medium, Invoke 0 7], activations = [Fulfilled]\<rparr> \<and>
   validateAction \<lparr>type = Archive, label = None, icon = None, color = None,
        onPress = Handler 7, enableHaptics = Some False\<rparr> \<and>
   run \<lparr>type = Archive, label = None, icon = None, color = None,
        onPress = Handler 7, enableHaptics = Some False\<rparr>
     [Press, OnPressSettled 0 Resolved] init
     = \<lparr>effects = [Invoke 0 7], activations = [Fulfilled]\<rparr>"
proof -
  have v1: "validateAction \<lparr>type = Archive, label = None, icon = None, color = None,
        onPress = Handler 7, enableHaptics = None\<rparr>"
    by (simp add: validateAction_def)
  have v2: "validateAction \<lparr>type = Archive, label = None, icon = None, color = None,
        onPress = Handler 7, enableHaptics = Some False\<rparr>"
    by (simp add: validateAction_def)
  show ?thesis
    using v1 v2 activation_sequence [OF v1, of init] activation_sequence [OF v2, of init]
    by (simp add: init_def getHapticsIntensity_def getPreset_def)
qed

subsection \<open>A rejected haptic request\<close>











subsection \<open>Overlapping activations\<close>

lemma invocations_press_no_haptics:
  "enableHaptics a = Some False \<Longrightarrow> onPress a = Handler h \<Longrightarrow>
     invocations (step a Press b) = invocations b + 1 \<and>
     inFlight (step a Press b) = inFlight b + 1"
  by (simp add: press_no_haptics invocations_def inFlight_def)

lemma count_list_update:
  "k < length xs \<Longrightarrow> xs ! k \<noteq> y \<Longrightarrow> count_list (xs[k := y]) y = count_list xs y + 1"
proof (induction xs arbitrary: k)
  case Nil
  then show ?case by simp
next
  case (Cons x xs)
  then show ?case by (cases k) auto
qed

lemma invocations_impact_resolved:
  "onPress a = Handler h \<Longrightarrow> k < length (activations b) \<Longrightarrow>
   activations b ! k = AwaitImpact \<Longrightarrow>
     invocations (step a (ImpactSettled k Resolved) b) = invocations b + 1 \<and>
     inFlight (step a (ImpactSettled k Resolved) b) = inFlight b + 1"
  by (simp add: invocations_def inFlight_def count_list_update)

text \<open>
  Claim C2, as the code has it. The button has no pending state: a press is
  never ignored. For an action with a handler, every press with haptics
  disabled calls the handler at once, whatever activations are still in flight,
  and with haptics enabled every press starts an activation whose handler call
  follows the resolution of its haptic request, again whatever else is in
  flight. Two presses issued before the first handler completes give two
  handler calls, both in flight.
\<close>

theorem no_pending_lock:
  assumes "onPress a = Handler h"
  shows "(enableHaptics a = Some False \<longrightarrow>
            invocations (step a Press b) = invocations b + 1 \<and>
            inFlight (step a Press b) = inFlight b + 1 \<and>
            invocations (run a [Press, Press] init) = 2 \<and>
            inFlight (run a [Press, Press] init) = 2) \<and>
         (enableHaptics a \<noteq> Some False \<longrightarrow>
            activations (step a Press b) = activations b @ [AwaitImpact] \<and>
            (k < length (activations b) \<and> activations b ! k = AwaitImpact \<longrightarrow>
               invocations (step a (ImpactSettled k Resolved) b) = invocations b + 1 \<and>
               inFlight (step a (ImpactSettled k Resolved) b) = inFlight b + 1) \<and>
            invocations (run a [Press, Press, ImpactSettled 0 Resolved,
                                ImpactSettled 1 Resolved] init) = 2 \<and>
            inFlight (run a [Press, Press, ImpactSettled 0 Resolved,
                             ImpactSettled 1 Resolved] init) = 2)"
proof -
  have off: "enableHaptics a = Some False \<longrightarrow>
            invocations (run a [Press, Press] init) = 2 \<and>
            inFlight (run a [Press, Press] init) = 2"
    using assms by (simp add: press_no_haptics init_def invocations_def inFlight_def)
  have on: "enableHaptics a \<noteq> Some False \<longrightarrow>
            invocations (run a [Press, Press, ImpactSettled 0 Resolved,
                                ImpactSettled 1 Resolved] init) = 2 \<and>
            inFlight (run a [Press, Press, ImpactSettled 0 Resolved,
                             ImpactSettled 1 Resolved] init) = 2"
    using assms by (simp add: press_haptics init_def invocations_def inFlight_def)
  have start: "enableHaptics a \<noteq> Some False \<longrightarrow>
            activations (step a Press b) = activations b @ [AwaitImpact]"
    by (simp add: press_haptics)
  from off on start invocations_press_no_haptics [of a h b]
    invocations_impact_resolved [of a h k b] assms
  show ?thesis by blast
qed

theorem no_pending_lock_witness:
  "invocations (run \<lparr>type = Delete, label = None, icon = None, color = None,
        onPress = Handler 3, enableHaptics = None\<rparr>
     [Press, Press, ImpactSettled 0 Resolved, ImpactSettled 1 Resolved] init) = 2 \<and>
   invocations (step \<lparr>type = Delete, label = None, icon = None, color = None,
        onPress = Handler 3, enableHaptics = None\<rparr> (ImpactSettled 0 Resolved)
        \<lparr>effects = [Impact 0 Heavy, Impact 1 Heavy],
         activations = [AwaitImpact, AwaitImpact]\<rparr>) = 1 \<and>
   invocations (run \<lparr>type = Delete, label = None, icon = None, color = None,
        onPress = Handler 3, enableHaptics = Some False\<rparr> [Press, Press] init) = 2"
  using no_pending_lock
    [of "\<lparr>type = Delete, label = None, icon = None, color = None,
        onPress = Handler 3, enableHaptics = None\<rparr>" 3
        "\<lparr>effects = [Impact 0 Heavy, Impact 1 Heavy],
         activations = [AwaitImpact, AwaitImpact]\<rparr>" 0]
    no_pending_lock
    [of "\<lparr>type = Delete, label = None, icon = None, color = None,
        onPress = Handler 3, enableHaptics = Some False\<rparr>" 3 init 0]
  by (simp add: invocations_def)

text \<open>
  Claim C2 as stated fails: a delete action with a handler and haptics
  disabled, pressed twice with no completion in between. The handler has been
  called twice and both calls are in flight.
\<close>

theorem double_press_counterexample:
  "invocations (run \<lparr>type = Delete, label = None, icon = None, color = None,
        onPress = Handler 0, enableHaptics = Some False\<rparr> [Press, Press] init) = 2 \<and>
   inFlight (run \<lparr>type = Delete, label = None, icon = None, color = None,
        onPress = Handler 0, enableHaptics = Some False\<rparr> [Press, Press] init) = 2"
  by (simp add: init_def press_def invocations_def inFlight_def)

section \<open>Rendering of a side's actions\<close>

lemma length_buttons: "length (buttons colors dir n i actions) = length actions"
  by (induction actions arbitrary: i) simp_all

lemma nth_buttons:
  "j < length actions \<Longrightarrow>
     buttons colors dir n i actions ! j = SwipeActionButton colors (actions ! j) (i + j) n dir"
proof (induction actions arbitrary: i j)
  case Nil
  then show ?case by simp
next
  case (Cons a actions)
  then show ?case by (cases j) simp_all
qed

lemma render_nonempty:
  assumes "actions \<noteq> []"
  shows "renderLeftActions colors actions progress drag =
           Some (buttons colors DLeft (length actions) 0 actions)"
    and "renderRightActions colors actions progress drag =
           Some (buttons colors DRight (length actions) 0 actions)"
  using assms by (simp_all add: renderLeftActions_def renderRightActions_def)

text \<open>
  Claim C4, as the code has it. Neither the row nor the button consults
  \<open>validateAction\<close>. Every descriptor of a non-empty side list is rendered, one
  button per descriptor in the list's order, whether or not it validates. A
  custom descriptor with no colour fails validation and is rendered with the
  theme's primary colour as background; with no label it shows "Action", with
  no icon the generic icon. A press on a descriptor that fails validation but
  has a handler calls the handler as for any other descriptor.
\<close>

theorem render_without_validation:
  "(actions \<noteq> [] \<longrightarrow>
      (\<exists>views. renderRightActions colors actions progress drag = Some views \<and>
         length views = length actions \<and>
         (\<forall>j < length actions.
            views ! j = SwipeActionButton colors (actions ! j) j (length actions) DRight)) \<and>
      (\<exists>views. renderLeftActions colors actions progress drag = Some views \<and>
         length views = length actions \<and>
         (\<forall>j < length actions.
            views ! j = SwipeActionButton colors (actions ! j) j (length actions) DLeft))) \<and>
   (type a = Custom \<and> \<not> truthy (color a) \<longrightarrow>
      \<not> validateAction a \<and>
      viewBackgroundColor (SwipeActionButton colors a position n dir) = colors ''primary'') \<and>
   (type a = Custom \<and> \<not> truthy (label a) \<longrightarrow>
      \<not> validateAction a \<and> viewText (SwipeActionButton colors a position n dir) = ''Action'') \<and>
   (type a = Custom \<and> \<not> truthy (icon a) \<longrightarrow>
      \<not> validateAction a \<and>
      viewIcon (SwipeActionButton colors a position n dir) = ''MoveHorizontal'') \<and>
   (onPress a = Handler h \<and> enableHaptics a = Some False \<longrightarrow>
      run a [Press] init = \<lparr>effects = [Invoke 0 h], activations = [AwaitOnPress]\<rparr>) \<and>
   (onPress a = Handler h \<and> enableHaptics a \<noteq> Some False \<longrightarrow>
      run a [Press, ImpactSettled 0 Resolved] init =
        \<lparr>effects = [Impact 0 (getHapticsIntensity a), Invoke 0 h],
         activations = [AwaitOnPress]\<rparr>)"
proof -
  have rendered: "actions \<noteq> [] \<longrightarrow>
      (\<exists>views. renderRightActions colors actions progress drag = Some views \<and>
         length views = length actions \<and>
         (\<forall>j < length actions.
            views ! j = SwipeActionButton colors (actions ! j) j (length actions) DRight)) \<and>
      (\<exists>views. renderLeftActions colors actions progress drag = Some views \<and>
         length views = length actions \<and>
         (\<forall>j < length actions.
            views ! j = SwipeActionButton colors (actions ! j) j (length actions) DLeft))"
    by (simp add: render_nonempty length_buttons nth_buttons)
  have invalid: "type a = Custom \<and>
      (\<not> truthy (color a) \<or> \<not> truthy (label a) \<or> \<not> truthy (icon a)) \<longrightarrow> \<not> validateAction a"
    by (auto simp: validateAction_def split: OnPress.splits)
  have bg: "type a = Custom \<and> \<not> truthy (color a) \<longrightarrow>
      viewBackgroundColor (SwipeActionButton colors a position n dir) = colors ''primary''"
    using color_absent_custom [of a colors] by (simp add: SwipeActionButton_def)
  have lbl: "type a = Custom \<and> \<not> truthy (label a) \<longrightarrow>
      viewText (SwipeActionButton colors a position n dir) = ''Action''"
    using getLabel_fallback [of a] by (simp add: SwipeActionButton_def)
  have ico: "type a = Custom \<and> \<not> truthy (icon a) \<longrightarrow>
      viewIcon (SwipeActionButton colors a position n dir) = ''MoveHorizontal''"
    using getIcon_fallback [of a] by (simp add: SwipeActionButton_def)
  have off: "onPress a = Handler h \<and> enableHaptics a = Some False \<longrightarrow>
      run a [Press] init = \<lparr>effects = [Invoke 0 h], activations = [AwaitOnPress]\<rparr>"
    by (simp add: press_no_haptics init_def)
  have on: "onPress a = Handler h \<and> enableHaptics a \<noteq> Some False \<longrightarrow>
      run a [Press, ImpactSettled 0 Resolved] init =
        \<lparr>effects = [Impact 0 (getHapticsIntensity a), Invoke 0 h],
         activations = [AwaitOnPress]\<rparr>"
    by (auto simp: press_haptics init_def)
  from rendered invalid bg lbl ico off on show ?thesis by blast
qed

theorem render_without_validation_witness:
  "renderRightActions sampleColors
     [\<lparr>type = Custom, label = None, icon = None, color = None,
       onPress = Handler 0, enableHaptics = Some False\<rparr>] 0 0
     = Some [\<lparr>viewBackgroundColor = ''theme.primary'', viewIcon = ''MoveHorizontal'',
              viewText = ''Action''\<rparr>] \<and>
   run \<lparr>type = Custom, label = None, icon = None, color = None,
        onPress = Handler 0, enableHaptics = Some False\<rparr> [Press] init
     = \<lparr>effects = [Invoke 0 0], activations = [AwaitOnPress]\<rparr>"
  using render_without_validation
    [of "[\<lparr>type = Custom, label = None, icon = None, color = None,
          onPress = Handler 0, enableHaptics = Some False\<rparr>]" sampleColors 0 0
        "\<lparr>type = Custom, label = None, icon = None, color = None,
          onPress = Handler 0, enableHaptics = Some False\<rparr>" 0 1 DRight 0]
  by (simp add: renderRightActions_def renderLeftActions_def SwipeActionButton_def
      backgroundColor_def getColorKey_def getIcon_def getLabel_def getPreset_def
      sampleColors_def init_def press_def)

text \<open>
  Claim C4 as stated fails: a custom descriptor with a handler and no label,
  icon or colour does not validate, and the row renders it, on a substitute
  background colour taken from the theme, with the fallback text and icon.
\<close>

theorem invalid_custom_rendered_counterexample:
  "\<not> validateAction \<lparr>type = Custom, label = None, icon = None, color = None,
        onPress = Handler 0, enableHaptics = None\<rparr> \<and>
   renderRightActions sampleColors
     [\<lparr>type = Custom, label = None, icon = None, color = None,
       onPress = Handler 0, enableHaptics = None\<rparr>] 0 0
     = Some [\<lparr>viewBackgroundColor = ''theme.primary'', viewIcon = ''MoveHorizontal'',
              viewText = ''Action''\<rparr>]"
  by (simp add: validateAction_def renderRightActions_def SwipeActionButton_def
      backgroundColor_def getColorKey_def getIcon_def getLabel_def getPreset_def
      sampleColors_def)

section \<open>Props handed to the gesture component\<close>





text \<open>
  A collaborator that never commits a drag on a side never opens that side.
\<close>

lemma rowStep_never_opens:
  assumes "\<forall>distance. \<not> commits p side distance" and "openSide \<noteq> Some side"
  shows "rowStep commits p e openSide \<noteq> Some side"
  using assms by (cases e) auto

lemma rowRun_never_opens:
  "\<forall>distance. \<not> commits p side distance \<Longrightarrow> openSide \<noteq> Some side \<Longrightarrow>
     rowRun commits p evs openSide \<noteq> Some side"
proof (induction evs arbitrary: openSide)
  case Nil
  then show ?case by simp
next
  case (Cons e evs)
  from Cons.prems have "rowStep commits p e openSide \<noteq> Some side"
    by (rule rowStep_never_opens)
  with Cons.IH [OF Cons.prems(1)] show ?case by simp
qed




text \<open>
  Claim C9. A row given no configuration hands the gesture component the
  thresholds 80, friction 2 and no overshoot on either side, the values of
  \<open>DEFAULT_SWIPE_CONFIG\<close>. For every configuration the two overshoot flags are
  equal, both the negation of the effective \<open>disableOvershoot\<close>, and the two
  thresholds are equal, both the effective threshold; the friction is passed on
  unchanged.
\<close>

theorem swipeable_props:
  "DEFAULT_SWIPE_CONFIG =
     \<lparr>defaultThreshold = 80, defaultDisableOvershoot = True, defaultFriction = 2\<rparr> \<and>
   leftThreshold (SwipeableItem colors \<lparr>leftActions = None, rightActions = None,
      threshold = None, disableOvershoot = None, friction = None\<rparr>) = 80 \<and>
   rightThreshold (SwipeableItem colors \<lparr>leftActions = None, rightActions = None,
      threshold = None, disableOvershoot = None, friction = None\<rparr>) = 80 \<and>
   propFriction (SwipeableItem colors \<lparr>leftActions = None, rightActions = None,
      threshold = None, disableOvershoot = None, friction = None\<rparr>) = 2 \<and>
   \<not> overshootLeft (SwipeableItem colors \<lparr>leftActions = None, rightActions = None,
      threshold = None, disableOvershoot = None, friction = None\<rparr>) \<and>
   \<not> overshootRight (SwipeableItem colors \<lparr>leftActions = None, rightActions = None,
      threshold = None, disableOvershoot = None, friction = None\<rparr>) \<and>
   overshootLeft (SwipeableItem colors cfg) = overshootRight (SwipeableItem colors cfg) \<and>
   leftThreshold (SwipeableItem colors cfg) = rightThreshold (SwipeableItem colors cfg) \<and>
   (disableOvershoot cfg = Some d \<longrightarrow> overshootLeft (SwipeableItem colors cfg) = (\<not> d)) \<and>
   (disableOvershoot cfg = None \<longrightarrow> overshootLeft (SwipeableItem colors cfg) = False) \<and>
   (threshold cfg = Some t \<longrightarrow> leftThreshold (SwipeableItem colors cfg) = t) \<and>
   (threshold cfg = None \<longrightarrow> leftThreshold (SwipeableItem colors cfg) = 80) \<and>
   (friction cfg = Some f \<longrightarrow> propFriction (SwipeableItem colors cfg) = f) \<and>
   (friction cfg = None \<longrightarrow> propFriction (SwipeableItem colors cfg) = 2)"
  by (simp add: SwipeableItem_def DEFAULT_SWIPE_CONFIG_def Let_def)

theorem swipeable_props_witness:
  "overshootLeft (SwipeableItem sampleColors \<lparr>leftActions = None, rightActions = None,
      threshold = Some 120, disableOvershoot = Some False, friction = Some 3\<rparr>) \<and>
   overshootRight (SwipeableItem sampleColors \<lparr>leftActions = None, rightActions = None,
      threshold = Some 120, disableOvershoot = Some False, friction = Some 3\<rparr>) \<and>
   leftThreshold (SwipeableItem sampleColors \<lparr>leftActions = None, rightActions = None,
      threshold = Some 120, disableOvershoot = Some False, friction = Some 3\<rparr>) = 120 \<and>
   rightThreshold (SwipeableItem sampleColors \<lparr>leftActions = None, rightActions = None,
      threshold = Some 120, disableOvershoot = Some False, friction = Some 3\<rparr>) = 120 \<and>
   propFriction (SwipeableItem sampleColors \<lparr>leftActions = None, rightActions = None,
      threshold = Some 120, disableOvershoot = Some False, friction = Some 3\<rparr>) = 3"
  using swipeable_props
    [of sampleColors "\<lparr>leftActions = None, rightActions = None,
      threshold = Some 120, disableOvershoot = Some False, friction = Some 3\<rparr>"
      False 120 3]
  by (simp add: SwipeableItem_def DEFAULT_SWIPE_CONFIG_def Let_def)

end
